theory Spec2Isabelle
  imports Main "HOL-Library.Word"
begin

section \<open>Data model of \<^verbatim>\<open>go/relay/prover.go\<close>\<close>

text \<open>
  The prover of package \<^verbatim>\<open>relay\<close> wraps an origin prover and replaces every origin proof
  by a commitment signed by a remote verification service. The Go methods are embedded
  as functions that take the session (\<open>Prover\<close>) and the outside world and return the
  result, the session and the world after the call. The world carries the state of
  everything that is reached over the network together with a trace of the dial attempts
  and remote procedure calls made so far, oldest first.
\<close>

type_synonym bytes = "8 word list"

text \<open>\<^verbatim>\<open>[]byte(s)\<close> for a Go string \<open>s\<close>.\<close>

definition bytes_of_string :: "string \<Rightarrow> bytes" where
  "bytes_of_string s = map of_char s"

text \<open>\<^verbatim>\<open>host.StoreKey\<close> of ibc-go (\<^verbatim>\<open>24-host/keys.go\<close>: \<^verbatim>\<open>StoreKey = ModuleName = "ibc"\<close>).\<close>

definition host_StoreKey :: string where
  "host_StoreKey = ''ibc''"

text \<open>
  A Go \<^verbatim>\<open>error\<close> value. \<open>Err\<close> is an error handed over by a collaborator (dialling, the
  origin prover, the remote service, packing or parsing), named by its message;
  \<open>ElcClientIdMismatch r c\<close> is the value of
  \<^verbatim>\<open>fmt.Errorf("you must specify '%v' as elc_client_id, but got %v", r, c)\<close>;
  \<open>Panic\<close> is a run-time panic (nil dereference, failed type assertion).
\<close>

datatype error = Err string | ElcClientIdMismatch string string | Panic

record Height =
  RevisionNumber :: "64 word"
  RevisionHeight :: "64 word"

text \<open>
  A value of the interface \<^verbatim>\<open>ibcexported.Height\<close>: its dynamic type is
  \<^verbatim>\<open>clienttypes.Height\<close> or anything else (nil included).
\<close>

datatype exported_Height = ClientHeight Height | OtherHeight

record Any =
  TypeUrl :: string
  Value :: bytes

datatype ConnectionEnd = ConnectionEndValue bytes

datatype Channel = ChannelValue bytes

datatype QueryContext = QueryContext (ctxHeight: Height)

datatype ClientConn = ClientConn nat

datatype ProtoCodec = ProtoCodec nat

datatype LCPServiceClient = LCPServiceClient nat

datatype Chain = Chain string

datatype ChainInfoICS02Querier = ChainInfoICS02Querier nat

record ProverConfig =
  LcpServiceAddress :: string
  ElcClientId :: string
  AllowedQuoteStatuses :: "string list"
  AllowedAdvisoryIds :: "string list"

record PathEnd =
  ClientID :: string
  ConnectionID :: string
  PortID :: string
  ChannelID :: string

subsection \<open>Light-client types (\<^verbatim>\<open>lcptypes\<close>)\<close>

record lcp_ClientState =
  LatestHeight :: Height
  Mrenclave :: bytes
  KeyExpiration :: "64 word"
  Keys :: "bytes list"
  AttestationTimes :: "64 word list"
  AllowedQuoteStatuses :: "string list"
  AllowedAdvisoryIds :: "string list"

text \<open>The source only ever builds the zero value \<^verbatim>\<open>&lcptypes.ConsensusState{}\<close>.\<close>

record lcp_ConsensusState =
  StateId :: bytes
  Timestamp :: "64 word"

record UpdateClientHeader =
  Commitment :: bytes
  Signer :: bytes
  Signature :: bytes

text \<open>
  A value of the interface \<^verbatim>\<open>core.Header\<close>: a header of the origin chain (opaque here) or
  the \<^verbatim>\<open>*lcptypes.UpdateClientHeader\<close> that this prover produces.
\<close>

datatype core_Header = OriginHeader bytes | LcpHeader UpdateClientHeader

datatype UpdateClientCommitment = UpdateClientCommitment bytes

text \<open>Of the parsed state commitment the source reads the field \<^verbatim>\<open>Height\<close> only.\<close>

record StateCommitment =
  Height :: Height

record StateCommitmentProof =
  Commitment :: bytes
  Signer :: bytes
  Signature :: bytes

definition NewStateCommitmentProof :: "bytes \<Rightarrow> bytes \<Rightarrow> bytes \<Rightarrow> StateCommitmentProof" where
  "NewStateCommitmentProof commitment signer signature =
     \<lparr>StateCommitmentProof.Commitment = commitment,
      StateCommitmentProof.Signer = signer,
      StateCommitmentProof.Signature = signature\<rparr>"

subsection \<open>Messages of the remote service (\<^verbatim>\<open>elc\<close>, \<^verbatim>\<open>ibc\<close>)\<close>

record clienttypes_MsgCreateClient =
  ClientState :: Any
  ConsensusState :: Any
  Signer :: string

record elc_MsgCreateClient =
  ClientState :: Any
  ConsensusState :: Any
  Signer :: string

record elc_MsgCreateClientResponse =
  ClientId :: string

record elc_MsgUpdateClient =
  ClientId :: string
  Header :: Any

record elc_MsgUpdateClientResponse =
  Commitment :: bytes
  Signer :: bytes
  Signature :: bytes

record ibc_MsgVerifyClient =
  ClientId :: string
  Prefix :: bytes
  CounterpartyClientId :: string
  ExpectedAnyClientState :: Any
  ProofHeight :: Height
  Proof :: bytes

record ibc_MsgVerifyClientConsensus =
  ClientId :: string
  Prefix :: bytes
  CounterpartyClientId :: string
  ConsensusHeight :: Height
  ExpectedAnyClientConsensusState :: Any
  ProofHeight :: Height
  Proof :: bytes

record ibc_MsgVerifyConnection =
  ClientId :: string
  Prefix :: bytes
  ConnectionId :: string
  ExpectedConnection :: ConnectionEnd
  ProofHeight :: Height
  Proof :: bytes

record ibc_MsgVerifyChannel =
  ClientId :: string
  Prefix :: bytes
  PortId :: string
  ChannelId :: string
  ExpectedChannel :: Channel
  ProofHeight :: Height
  Proof :: bytes

record ibc_MsgVerifyPacket =
  ClientId :: string
  Prefix :: bytes
  PortId :: string
  ChannelId :: string
  Sequence :: "64 word"
  Commitment :: bytes
  ProofHeight :: Height
  Proof :: bytes

record ibc_MsgVerifyPacketAcknowledgement =
  ClientId :: string
  Prefix :: bytes
  PortId :: string
  ChannelId :: string
  Sequence :: "64 word"
  Commitment :: bytes
  ProofHeight :: Height
  Proof :: bytes

text \<open>
  The six responses \<^verbatim>\<open>ibc.MsgVerify...Response\<close>: the source reads the same three fields
  of each.
\<close>

record ibc_MsgVerifyResponse =
  Commitment :: bytes
  Signer :: bytes
  Signature :: bytes

subsection \<open>Responses of the origin prover\<close>

record QueryConsensusStateResponse =
  ConsensusState :: Any
  Proof :: bytes
  ProofHeight :: Height

record QueryClientStateResponse =
  ClientState :: Any
  Proof :: bytes
  ProofHeight :: Height

text \<open>\<^verbatim>\<open>Connection\<close> and \<^verbatim>\<open>Channel\<close> are pointers; \<open>None\<close> is nil.\<close>

record QueryConnectionResponse =
  Connection :: "ConnectionEnd option"
  Proof :: bytes
  ProofHeight :: Height

record QueryChannelResponse =
  Channel :: "Channel option"
  Proof :: bytes
  ProofHeight :: Height

record QueryPacketCommitmentResponse =
  Commitment :: bytes
  Proof :: bytes
  ProofHeight :: Height

record QueryPacketAcknowledgementResponse =
  Acknowledgement :: bytes
  Proof :: bytes
  ProofHeight :: Height

subsection \<open>The session\<close>

text \<open>
  The interface \<^verbatim>\<open>OriginProver\<close> as the record of its methods that the source calls. Each
  method of \<open>Prover\<close> calls the origin prover at most once.
\<close>

record OriginProver =
  CreateMsgCreateClient ::
    "string \<Rightarrow> core_Header \<Rightarrow> bytes \<Rightarrow> error + clienttypes_MsgCreateClient"
  SetupHeadersForUpdate ::
    "ChainInfoICS02Querier \<Rightarrow> core_Header \<Rightarrow> error + core_Header list"
  QueryClientConsensusStateWithProof ::
    "QueryContext \<Rightarrow> exported_Height \<Rightarrow> error + QueryConsensusStateResponse"
  QueryClientStateWithProof :: "QueryContext \<Rightarrow> error + QueryClientStateResponse"
  QueryConnectionWithProof :: "QueryContext \<Rightarrow> error + QueryConnectionResponse"
  QueryChannelWithProof :: "QueryContext \<Rightarrow> error + QueryChannelResponse"
  QueryPacketCommitmentWithProof ::
    "QueryContext \<Rightarrow> 64 word \<Rightarrow> error + QueryPacketCommitmentResponse"
  QueryPacketAcknowledgementCommitmentWithProof ::
    "QueryContext \<Rightarrow> 64 word \<Rightarrow> error + QueryPacketAcknowledgementResponse"

text \<open>
  The struct \<^verbatim>\<open>Prover\<close>. \<open>codec\<close> is an interface value and \<open>path\<close> a pointer, \<open>None\<close> being
  nil; \<open>lcpServiceClient = None\<close> is the zero value the field has until
  \<open>initServiceClient\<close> assigns it, through which no call can be made.
\<close>

record Prover =
  config :: ProverConfig
  originChain :: Chain
  originProver :: OriginProver
  codec :: "ProtoCodec option"
  path :: "PathEnd option"
  lcpServiceClient :: "LCPServiceClient option"

subsection \<open>The outside world\<close>

text \<open>One entry of the trace: a dial attempt, or a request sent through a service client,
  each with what came back.\<close>

datatype event =
    EvDial string "error + ClientConn"
  | EvCreateClient LCPServiceClient elc_MsgCreateClient "error + elc_MsgCreateClientResponse"
  | EvUpdateClient LCPServiceClient elc_MsgUpdateClient "error + elc_MsgUpdateClientResponse"
  | EvVerifyClient LCPServiceClient ibc_MsgVerifyClient "error + ibc_MsgVerifyResponse"
  | EvVerifyClientConsensus LCPServiceClient ibc_MsgVerifyClientConsensus
      "error + ibc_MsgVerifyResponse"
  | EvVerifyConnection LCPServiceClient ibc_MsgVerifyConnection "error + ibc_MsgVerifyResponse"
  | EvVerifyChannel LCPServiceClient ibc_MsgVerifyChannel "error + ibc_MsgVerifyResponse"
  | EvVerifyPacket LCPServiceClient ibc_MsgVerifyPacket "error + ibc_MsgVerifyResponse"
  | EvVerifyPacketAcknowledgement LCPServiceClient ibc_MsgVerifyPacketAcknowledgement
      "error + ibc_MsgVerifyResponse"

record 'w World =
  ext :: 'w
  trace :: "event list"

text \<open>
  What the source uses and does not define: \<^verbatim>\<open>grpc.Dial\<close>, the constructor of the service
  client, the getter of the configured enclave measurement, \<^verbatim>\<open>signer.String()\<close>, the
  packing and parsing functions, the serialisation of a commitment proof, and the
  endpoints of the remote service. The dial and the endpoints read and change the state
  \<open>'w\<close> of the outside world.
\<close>

record 'w Env =
  grpc_Dial :: "'w \<Rightarrow> string \<Rightarrow> (error + ClientConn) \<times> 'w"
  NewLCPServiceClient :: "ClientConn \<Rightarrow> ProtoCodec option \<Rightarrow> LCPServiceClient"
  GetMrenclave :: "ProverConfig \<Rightarrow> bytes"
  AccAddress_String :: "bytes \<Rightarrow> string"
  PackClientState :: "lcp_ClientState \<Rightarrow> error + Any"
  PackConsensusState :: "lcp_ConsensusState \<Rightarrow> error + Any"
  PackHeader :: "core_Header \<Rightarrow> error + Any"
  ParseUpdateClientCommitment :: "bytes \<Rightarrow> error + UpdateClientCommitment"
  ParseStateCommitment :: "bytes \<Rightarrow> error + StateCommitment"
  ToRLPBytes :: "StateCommitmentProof \<Rightarrow> bytes"
  CreateClient ::
    "LCPServiceClient \<Rightarrow> 'w \<Rightarrow> elc_MsgCreateClient
       \<Rightarrow> (error + elc_MsgCreateClientResponse) \<times> 'w"
  UpdateClient ::
    "LCPServiceClient \<Rightarrow> 'w \<Rightarrow> elc_MsgUpdateClient
       \<Rightarrow> (error + elc_MsgUpdateClientResponse) \<times> 'w"
  VerifyClient ::
    "LCPServiceClient \<Rightarrow> 'w \<Rightarrow> ibc_MsgVerifyClient \<Rightarrow> (error + ibc_MsgVerifyResponse) \<times> 'w"
  VerifyClientConsensus ::
    "LCPServiceClient \<Rightarrow> 'w \<Rightarrow> ibc_MsgVerifyClientConsensus
       \<Rightarrow> (error + ibc_MsgVerifyResponse) \<times> 'w"
  VerifyConnection ::
    "LCPServiceClient \<Rightarrow> 'w \<Rightarrow> ibc_MsgVerifyConnection
       \<Rightarrow> (error + ibc_MsgVerifyResponse) \<times> 'w"
  VerifyChannel ::
    "LCPServiceClient \<Rightarrow> 'w \<Rightarrow> ibc_MsgVerifyChannel \<Rightarrow> (error + ibc_MsgVerifyResponse) \<times> 'w"
  VerifyPacket ::
    "LCPServiceClient \<Rightarrow> 'w \<Rightarrow> ibc_MsgVerifyPacket \<Rightarrow> (error + ibc_MsgVerifyResponse) \<times> 'w"
  VerifyPacketAcknowledgement ::
    "LCPServiceClient \<Rightarrow> 'w \<Rightarrow> ibc_MsgVerifyPacketAcknowledgement
       \<Rightarrow> (error + ibc_MsgVerifyResponse) \<times> 'w"

text \<open>
  A method call on \<^verbatim>\<open>pr.lcpServiceClient\<close>: through the zero value it panics and nothing
  is sent; otherwise the request goes out, the world moves on and the trace grows by the
  request and its response.
\<close>

definition rpc ::
  "(LCPServiceClient \<Rightarrow> 'w \<Rightarrow> 'm \<Rightarrow> (error + 'a) \<times> 'w)
     \<Rightarrow> (LCPServiceClient \<Rightarrow> 'm \<Rightarrow> error + 'a \<Rightarrow> event)
     \<Rightarrow> Prover \<Rightarrow> 'm \<Rightarrow> 'w World \<Rightarrow> (error + 'a) \<times> 'w World" where
  "rpc method ev pr m w =
     (case lcpServiceClient pr of
        None \<Rightarrow> (Inl Panic, w)
      | Some c \<Rightarrow>
          (case method c (ext w) m of
             (r, x) \<Rightarrow> (r, \<lparr>ext = x, trace = trace w @ [ev c m r]\<rparr>)))"

section \<open>The methods of \<open>Prover\<close>\<close>

definition NewProver :: "ProverConfig \<Rightarrow> Chain \<Rightarrow> OriginProver \<Rightarrow> error + Prover" where
  "NewProver cfg chain origin =
     Inr \<lparr>config = cfg, originChain = chain, originProver = origin,
          codec = None, path = None, lcpServiceClient = None\<rparr>"

definition initServiceClient ::
  "'w Env \<Rightarrow> Prover \<Rightarrow> 'w World \<Rightarrow> error option \<times> Prover \<times> 'w World" where
  "initServiceClient env pr w =
     (case grpc_Dial env (ext w) (LcpServiceAddress (config pr)) of
        (r, x) \<Rightarrow>
          (let w' = \<lparr>ext = x, trace = trace w @ [EvDial (LcpServiceAddress (config pr)) r]\<rparr>
           in case r of
                Inl err \<Rightarrow> (Some err, pr, w')
              | Inr conn \<Rightarrow>
                  (None,
                   pr\<lparr>lcpServiceClient := Some (NewLCPServiceClient env conn (codec pr))\<rparr>,
                   w')))"

definition Init :: "Prover \<Rightarrow> ProtoCodec option \<Rightarrow> error option \<times> Prover" where
  "Init pr cdc = (None, pr\<lparr>codec := cdc\<rparr>)"

definition SetRelayInfo :: "Prover \<Rightarrow> PathEnd option \<Rightarrow> error option \<times> Prover" where
  "SetRelayInfo pr p = (None, pr\<lparr>path := p\<rparr>)"

definition SetupForRelay ::
  "'w Env \<Rightarrow> Prover \<Rightarrow> 'w World \<Rightarrow> error option \<times> Prover \<times> 'w World" where
  "SetupForRelay env pr w = initServiceClient env pr w"

definition CreateMsgCreateClient ::
  "'w Env \<Rightarrow> Prover \<Rightarrow> string \<Rightarrow> core_Header \<Rightarrow> bytes \<Rightarrow> 'w World
     \<Rightarrow> (error + clienttypes_MsgCreateClient) \<times> Prover \<times> 'w World" where
  "CreateMsgCreateClient env pr0 clientID dstHeader signer w0 =
     (case initServiceClient env pr0 w0 of
        (Some err, pr, w) \<Rightarrow> (Inl err, pr, w)
      | (None, pr, w) \<Rightarrow>
     (case OriginProver.CreateMsgCreateClient (originProver pr) clientID dstHeader signer of
        Inl err \<Rightarrow> (Inl err, pr, w)
      | Inr msg \<Rightarrow>
     (case rpc (CreateClient env) EvCreateClient pr
             \<lparr>elc_MsgCreateClient.ClientState = clienttypes_MsgCreateClient.ClientState msg,
              elc_MsgCreateClient.ConsensusState = clienttypes_MsgCreateClient.ConsensusState msg,
              elc_MsgCreateClient.Signer = ''''\<rparr> w of
        (Inl err, w') \<Rightarrow> (Inl err, pr, w')
      | (Inr res, w') \<Rightarrow>
     if ElcClientId (config pr) \<noteq> elc_MsgCreateClientResponse.ClientId res
     then (Inl (ElcClientIdMismatch (elc_MsgCreateClientResponse.ClientId res)
                  (ElcClientId (config pr))), pr, w')
     else
     (let clientState =
            \<lparr>LatestHeight = \<lparr>RevisionNumber = 0, RevisionHeight = 0\<rparr>,
             Mrenclave = GetMrenclave env (config pr),
             KeyExpiration = 60 * 60 * 24 * 7,
             Keys = [],
             AttestationTimes = [],
             AllowedQuoteStatuses = ProverConfig.AllowedQuoteStatuses (config pr),
             AllowedAdvisoryIds = ProverConfig.AllowedAdvisoryIds (config pr)\<rparr>;
          consensusState = \<lparr>StateId = [], Timestamp = 0\<rparr>
      in case PackClientState env clientState of
           Inl err \<Rightarrow> (Inl err, pr, w')
         | Inr anyClientState \<Rightarrow>
        (case PackConsensusState env consensusState of
           Inl err \<Rightarrow> (Inl err, pr, w')
         | Inr anyConsensusState \<Rightarrow>
             (Inr \<lparr>clienttypes_MsgCreateClient.ClientState = anyClientState,
                   clienttypes_MsgCreateClient.ConsensusState = anyConsensusState,
                   clienttypes_MsgCreateClient.Signer = AccAddress_String env signer\<rparr>,
              pr, w'))))))"

text \<open>
  \<^verbatim>\<open>SetupHeadersForUpdate\<close> returns a slice and an error side by side, and the model keeps
  the pair: the empty list is the nil (or empty) slice, \<open>None\<close> the nil error. The body of
  the \<^verbatim>\<open>for\<close> loop is one step of \<open>SetupHeadersForUpdate_loop\<close>, with \<open>updates\<close> the slice
  built so far.
\<close>

fun SetupHeadersForUpdate_loop ::
  "'w Env \<Rightarrow> Prover \<Rightarrow> core_Header list \<Rightarrow> core_Header list \<Rightarrow> 'w World
     \<Rightarrow> (core_Header list \<times> error option) \<times> 'w World" where
  "SetupHeadersForUpdate_loop env pr [] updates w = ((updates, None), w)"
| "SetupHeadersForUpdate_loop env pr (h # hs) updates w =
     (case PackHeader env h of
        Inl err \<Rightarrow> (([], Some err), w)
      | Inr anyHeader \<Rightarrow>
     (case rpc (UpdateClient env) EvUpdateClient pr
             \<lparr>elc_MsgUpdateClient.ClientId = ElcClientId (config pr),
              elc_MsgUpdateClient.Header = anyHeader\<rparr> w of
        (Inl err, w') \<Rightarrow> (([], Some err), w')
      | (Inr res, w') \<Rightarrow>
     (case ParseUpdateClientCommitment env (elc_MsgUpdateClientResponse.Commitment res) of
        Inl err \<Rightarrow> (([], Some err), w')
      | Inr _ \<Rightarrow>
          SetupHeadersForUpdate_loop env pr hs
            (updates @
               [LcpHeader
                  \<lparr>UpdateClientHeader.Commitment = elc_MsgUpdateClientResponse.Commitment res,
                   UpdateClientHeader.Signer = elc_MsgUpdateClientResponse.Signer res,
                   UpdateClientHeader.Signature = elc_MsgUpdateClientResponse.Signature res\<rparr>])
            w')))"

definition SetupHeadersForUpdate ::
  "'w Env \<Rightarrow> Prover \<Rightarrow> ChainInfoICS02Querier \<Rightarrow> core_Header \<Rightarrow> 'w World
     \<Rightarrow> (core_Header list \<times> error option) \<times> Prover \<times> 'w World" where
  "SetupHeadersForUpdate env pr0 dstChain latestFinalizedHeader w0 =
     (case initServiceClient env pr0 w0 of
        (Some err, pr, w) \<Rightarrow> (([], Some err), pr, w)
      | (None, pr, w) \<Rightarrow>
     (case OriginProver.SetupHeadersForUpdate (originProver pr) dstChain latestFinalizedHeader of
        Inl err \<Rightarrow> (([], Some err), pr, w)
      | Inr headers \<Rightarrow>
          if length headers = 0 then (([], None), pr, w)
          else (case SetupHeadersForUpdate_loop env pr headers [] w of
                  (r, w') \<Rightarrow> (r, pr, w'))))"

definition QueryClientConsensusStateWithProof ::
  "'w Env \<Rightarrow> Prover \<Rightarrow> QueryContext \<Rightarrow> exported_Height \<Rightarrow> 'w World
     \<Rightarrow> (error + QueryConsensusStateResponse) \<times> Prover \<times> 'w World" where
  "QueryClientConsensusStateWithProof env pr ctx dstClientConsHeight w =
     (case OriginProver.QueryClientConsensusStateWithProof (originProver pr) ctx
             dstClientConsHeight of
        Inl err \<Rightarrow> (Inl err, pr, w)
      | Inr res \<Rightarrow>
     (case path pr of None \<Rightarrow> (Inl Panic, pr, w) | Some p \<Rightarrow>
     (case dstClientConsHeight of OtherHeight \<Rightarrow> (Inl Panic, pr, w) | ClientHeight h \<Rightarrow>
     (case rpc (VerifyClientConsensus env) EvVerifyClientConsensus pr
             \<lparr>ibc_MsgVerifyClientConsensus.ClientId = ElcClientId (config pr),
              ibc_MsgVerifyClientConsensus.Prefix = bytes_of_string host_StoreKey,
              ibc_MsgVerifyClientConsensus.CounterpartyClientId = ClientID p,
              ibc_MsgVerifyClientConsensus.ConsensusHeight = h,
              ibc_MsgVerifyClientConsensus.ExpectedAnyClientConsensusState =
                QueryConsensusStateResponse.ConsensusState res,
              ibc_MsgVerifyClientConsensus.ProofHeight =
                QueryConsensusStateResponse.ProofHeight res,
              ibc_MsgVerifyClientConsensus.Proof = QueryConsensusStateResponse.Proof res\<rparr> w of
        (Inl err, w') \<Rightarrow> (Inl err, pr, w')
      | (Inr res2, w') \<Rightarrow>
     (case ParseStateCommitment env (ibc_MsgVerifyResponse.Commitment res2) of
        Inl err \<Rightarrow> (Inl err, pr, w')
      | Inr commitment \<Rightarrow>
          (Inr \<lparr>QueryConsensusStateResponse.ConsensusState =
                  QueryConsensusStateResponse.ConsensusState res,
                QueryConsensusStateResponse.Proof =
                  ToRLPBytes env
                    (NewStateCommitmentProof (ibc_MsgVerifyResponse.Commitment res2)
                       (ibc_MsgVerifyResponse.Signer res2)
                       (ibc_MsgVerifyResponse.Signature res2)),
                QueryConsensusStateResponse.ProofHeight = Height commitment\<rparr>,
           pr, w'))))))"

definition QueryClientStateWithProof ::
  "'w Env \<Rightarrow> Prover \<Rightarrow> QueryContext \<Rightarrow> 'w World
     \<Rightarrow> (error + QueryClientStateResponse) \<times> Prover \<times> 'w World" where
  "QueryClientStateWithProof env pr ctx w =
     (case OriginProver.QueryClientStateWithProof (originProver pr) ctx of
        Inl err \<Rightarrow> (Inl err, pr, w)
      | Inr res \<Rightarrow>
     (case path pr of None \<Rightarrow> (Inl Panic, pr, w) | Some p \<Rightarrow>
     (case rpc (VerifyClient env) EvVerifyClient pr
             \<lparr>ibc_MsgVerifyClient.ClientId = ElcClientId (config pr),
              ibc_MsgVerifyClient.Prefix = bytes_of_string host_StoreKey,
              ibc_MsgVerifyClient.CounterpartyClientId = ClientID p,
              ibc_MsgVerifyClient.ExpectedAnyClientState =
                QueryClientStateResponse.ClientState res,
              ibc_MsgVerifyClient.ProofHeight = QueryClientStateResponse.ProofHeight res,
              ibc_MsgVerifyClient.Proof = QueryClientStateResponse.Proof res\<rparr> w of
        (Inl err, w') \<Rightarrow> (Inl err, pr, w')
      | (Inr res2, w') \<Rightarrow>
     (case ParseStateCommitment env (ibc_MsgVerifyResponse.Commitment res2) of
        Inl err \<Rightarrow> (Inl err, pr, w')
      | Inr commitment \<Rightarrow>
          (Inr \<lparr>QueryClientStateResponse.ClientState = QueryClientStateResponse.ClientState res,
                QueryClientStateResponse.Proof =
                  ToRLPBytes env
                    (NewStateCommitmentProof (ibc_MsgVerifyResponse.Commitment res2)
                       (ibc_MsgVerifyResponse.Signer res2)
                       (ibc_MsgVerifyResponse.Signature res2)),
                QueryClientStateResponse.ProofHeight = Height commitment\<rparr>,
           pr, w')))))"

definition QueryConnectionWithProof ::
  "'w Env \<Rightarrow> Prover \<Rightarrow> QueryContext \<Rightarrow> 'w World
     \<Rightarrow> (error + QueryConnectionResponse) \<times> Prover \<times> 'w World" where
  "QueryConnectionWithProof env pr ctx w =
     (case OriginProver.QueryConnectionWithProof (originProver pr) ctx of
        Inl err \<Rightarrow> (Inl err, pr, w)
      | Inr res \<Rightarrow>
     if length (QueryConnectionResponse.Proof res) = 0 then (Inr res, pr, w)
     else
     (case path pr of None \<Rightarrow> (Inl Panic, pr, w) | Some p \<Rightarrow>
     (case Connection res of None \<Rightarrow> (Inl Panic, pr, w) | Some connection \<Rightarrow>
     (case rpc (VerifyConnection env) EvVerifyConnection pr
             \<lparr>ibc_MsgVerifyConnection.ClientId = ElcClientId (config pr),
              ibc_MsgVerifyConnection.Prefix = bytes_of_string host_StoreKey,
              ibc_MsgVerifyConnection.ConnectionId = ConnectionID p,
              ibc_MsgVerifyConnection.ExpectedConnection = connection,
              ibc_MsgVerifyConnection.ProofHeight = QueryConnectionResponse.ProofHeight res,
              ibc_MsgVerifyConnection.Proof = QueryConnectionResponse.Proof res\<rparr> w of
        (Inl err, w') \<Rightarrow> (Inl err, pr, w')
      | (Inr res2, w') \<Rightarrow>
     (case ParseStateCommitment env (ibc_MsgVerifyResponse.Commitment res2) of
        Inl err \<Rightarrow> (Inl err, pr, w')
      | Inr commitment \<Rightarrow>
          (Inr \<lparr>QueryConnectionResponse.Connection = Connection res,
                QueryConnectionResponse.Proof =
                  ToRLPBytes env
                    (NewStateCommitmentProof (ibc_MsgVerifyResponse.Commitment res2)
                       (ibc_MsgVerifyResponse.Signer res2)
                       (ibc_MsgVerifyResponse.Signature res2)),
                QueryConnectionResponse.ProofHeight = Height commitment\<rparr>,
           pr, w'))))))"

definition QueryChannelWithProof ::
  "'w Env \<Rightarrow> Prover \<Rightarrow> QueryContext \<Rightarrow> 'w World
     \<Rightarrow> (error + QueryChannelResponse) \<times> Prover \<times> 'w World" where
  "QueryChannelWithProof env pr ctx w =
     (case OriginProver.QueryChannelWithProof (originProver pr) ctx of
        Inl err \<Rightarrow> (Inl err, pr, w)
      | Inr res \<Rightarrow>
     if length (QueryChannelResponse.Proof res) = 0 then (Inr res, pr, w)
     else
     (case path pr of None \<Rightarrow> (Inl Panic, pr, w) | Some p \<Rightarrow>
     (case QueryChannelResponse.Channel res of
        None \<Rightarrow> (Inl Panic, pr, w)
      | Some channel \<Rightarrow>
     (case rpc (VerifyChannel env) EvVerifyChannel pr
             \<lparr>ibc_MsgVerifyChannel.ClientId = ElcClientId (config pr),
              ibc_MsgVerifyChannel.Prefix = bytes_of_string host_StoreKey,
              ibc_MsgVerifyChannel.PortId = PortID p,
              ibc_MsgVerifyChannel.ChannelId = ChannelID p,
              ibc_MsgVerifyChannel.ExpectedChannel = channel,
              ibc_MsgVerifyChannel.ProofHeight = QueryChannelResponse.ProofHeight res,
              ibc_MsgVerifyChannel.Proof = QueryChannelResponse.Proof res\<rparr> w of
        (Inl err, w') \<Rightarrow> (Inl err, pr, w')
      | (Inr res2, w') \<Rightarrow>
     (case ParseStateCommitment env (ibc_MsgVerifyResponse.Commitment res2) of
        Inl err \<Rightarrow> (Inl err, pr, w')
      | Inr commitment \<Rightarrow>
          (Inr \<lparr>QueryChannelResponse.Channel = QueryChannelResponse.Channel res,
                QueryChannelResponse.Proof =
                  ToRLPBytes env
                    (NewStateCommitmentProof (ibc_MsgVerifyResponse.Commitment res2)
                       (ibc_MsgVerifyResponse.Signer res2)
                       (ibc_MsgVerifyResponse.Signature res2)),
                QueryChannelResponse.ProofHeight = Height commitment\<rparr>,
           pr, w'))))))"

definition QueryPacketCommitmentWithProof ::
  "'w Env \<Rightarrow> Prover \<Rightarrow> QueryContext \<Rightarrow> 64 word \<Rightarrow> 'w World
     \<Rightarrow> (error + QueryPacketCommitmentResponse) \<times> Prover \<times> 'w World" where
  "QueryPacketCommitmentWithProof env pr ctx seq w =
     (case OriginProver.QueryPacketCommitmentWithProof (originProver pr) ctx seq of
        Inl err \<Rightarrow> (Inl err, pr, w)
      | Inr res \<Rightarrow>
     (case path pr of None \<Rightarrow> (Inl Panic, pr, w) | Some p \<Rightarrow>
     (case rpc (VerifyPacket env) EvVerifyPacket pr
             \<lparr>ibc_MsgVerifyPacket.ClientId = ElcClientId (config pr),
              ibc_MsgVerifyPacket.Prefix = bytes_of_string host_StoreKey,
              ibc_MsgVerifyPacket.PortId = PortID p,
              ibc_MsgVerifyPacket.ChannelId = ChannelID p,
              ibc_MsgVerifyPacket.Sequence = seq,
              ibc_MsgVerifyPacket.Commitment = QueryPacketCommitmentResponse.Commitment res,
              ibc_MsgVerifyPacket.ProofHeight = QueryPacketCommitmentResponse.ProofHeight res,
              ibc_MsgVerifyPacket.Proof = QueryPacketCommitmentResponse.Proof res\<rparr> w of
        (Inl err, w') \<Rightarrow> (Inl err, pr, w')
      | (Inr res2, w') \<Rightarrow>
     (case ParseStateCommitment env (ibc_MsgVerifyResponse.Commitment res2) of
        Inl err \<Rightarrow> (Inl err, pr, w')
      | Inr commitment \<Rightarrow>
          (Inr \<lparr>QueryPacketCommitmentResponse.Commitment =
                  QueryPacketCommitmentResponse.Commitment res,
                QueryPacketCommitmentResponse.Proof =
                  ToRLPBytes env
                    (NewStateCommitmentProof (ibc_MsgVerifyResponse.Commitment res2)
                       (ibc_MsgVerifyResponse.Signer res2)
                       (ibc_MsgVerifyResponse.Signature res2)),
                QueryPacketCommitmentResponse.ProofHeight = Height commitment\<rparr>,
           pr, w')))))"

definition QueryPacketAcknowledgementCommitmentWithProof ::
  "'w Env \<Rightarrow> Prover \<Rightarrow> QueryContext \<Rightarrow> 64 word \<Rightarrow> 'w World
     \<Rightarrow> (error + QueryPacketAcknowledgementResponse) \<times> Prover \<times> 'w World" where
  "QueryPacketAcknowledgementCommitmentWithProof env pr ctx seq w =
     (case OriginProver.QueryPacketAcknowledgementCommitmentWithProof (originProver pr) ctx seq of
        Inl err \<Rightarrow> (Inl err, pr, w)
      | Inr res \<Rightarrow>
     (case path pr of None \<Rightarrow> (Inl Panic, pr, w) | Some p \<Rightarrow>
     (case rpc (VerifyPacketAcknowledgement env) EvVerifyPacketAcknowledgement pr
             \<lparr>ibc_MsgVerifyPacketAcknowledgement.ClientId = ElcClientId (config pr),
              ibc_MsgVerifyPacketAcknowledgement.Prefix = bytes_of_string host_StoreKey,
              ibc_MsgVerifyPacketAcknowledgement.PortId = PortID p,
              ibc_MsgVerifyPacketAcknowledgement.ChannelId = ChannelID p,
              ibc_MsgVerifyPacketAcknowledgement.Sequence = seq,
              ibc_MsgVerifyPacketAcknowledgement.Commitment = Acknowledgement res,
              ibc_MsgVerifyPacketAcknowledgement.ProofHeight =
                QueryPacketAcknowledgementResponse.ProofHeight res,
              ibc_MsgVerifyPacketAcknowledgement.Proof =
                QueryPacketAcknowledgementResponse.Proof res\<rparr> w of
        (Inl err, w') \<Rightarrow> (Inl err, pr, w')
      | (Inr res2, w') \<Rightarrow>
     (case ParseStateCommitment env (ibc_MsgVerifyResponse.Commitment res2) of
        Inl err \<Rightarrow> (Inl err, pr, w')
      | Inr commitment \<Rightarrow>
          (Inr \<lparr>QueryPacketAcknowledgementResponse.Acknowledgement = Acknowledgement res,
                QueryPacketAcknowledgementResponse.Proof =
                  ToRLPBytes env
                    (NewStateCommitmentProof (ibc_MsgVerifyResponse.Commitment res2)
                       (ibc_MsgVerifyResponse.Signer res2)
                       (ibc_MsgVerifyResponse.Signature res2)),
                QueryPacketAcknowledgementResponse.ProofHeight = Height commitment\<rparr>,
           pr, w')))))"

section \<open>Vocabulary of the specification\<close>

text \<open>The requests that reached the remote service: the trace without the dial attempts.\<close>

fun is_remote_call :: "event \<Rightarrow> bool" where
  "is_remote_call (EvDial a r) = False"
| "is_remote_call ev = True"

definition remote_calls :: "event list \<Rightarrow> event list" where
  "remote_calls evs = filter is_remote_call evs"

text \<open>
  A delegated-verification request that carries the client identifier \<open>cid\<close> and the
  store-key prefix \<open>pfx\<close>.
\<close>

fun verification_bound_to :: "string \<Rightarrow> bytes \<Rightarrow> event \<Rightarrow> bool" where
  "verification_bound_to cid pfx (EvVerifyClient c m r) =
     (ibc_MsgVerifyClient.ClientId m = cid \<and> ibc_MsgVerifyClient.Prefix m = pfx)"
| "verification_bound_to cid pfx (EvVerifyClientConsensus c m r) =
     (ibc_MsgVerifyClientConsensus.ClientId m = cid
        \<and> ibc_MsgVerifyClientConsensus.Prefix m = pfx)"
| "verification_bound_to cid pfx (EvVerifyConnection c m r) =
     (ibc_MsgVerifyConnection.ClientId m = cid \<and> ibc_MsgVerifyConnection.Prefix m = pfx)"
| "verification_bound_to cid pfx (EvVerifyChannel c m r) =
     (ibc_MsgVerifyChannel.ClientId m = cid \<and> ibc_MsgVerifyChannel.Prefix m = pfx)"
| "verification_bound_to cid pfx (EvVerifyPacket c m r) =
     (ibc_MsgVerifyPacket.ClientId m = cid \<and> ibc_MsgVerifyPacket.Prefix m = pfx)"
| "verification_bound_to cid pfx (EvVerifyPacketAcknowledgement c m r) =
     (ibc_MsgVerifyPacketAcknowledgement.ClientId m = cid
        \<and> ibc_MsgVerifyPacketAcknowledgement.Prefix m = pfx)"
| "verification_bound_to cid pfx ev = False"

text \<open>
  The update-client request for a packed header, and the destination header that carries
  what one update-client response returned.
\<close>

definition update_request :: "Prover \<Rightarrow> Any \<Rightarrow> elc_MsgUpdateClient" where
  "update_request pr anyHeader =
     \<lparr>elc_MsgUpdateClient.ClientId = ElcClientId (config pr),
      elc_MsgUpdateClient.Header = anyHeader\<rparr>"

definition header_of_response :: "elc_MsgUpdateClientResponse \<Rightarrow> core_Header" where
  "header_of_response res =
     LcpHeader
       \<lparr>UpdateClientHeader.Commitment = elc_MsgUpdateClientResponse.Commitment res,
        UpdateClientHeader.Signer = elc_MsgUpdateClientResponse.Signer res,
        UpdateClientHeader.Signature = elc_MsgUpdateClientResponse.Signature res\<rparr>"

text \<open>
  The error with which an update-client call recorded in the trace makes the header
  application fail: the error of the call itself, or the parse error of the commitment
  it returned.
\<close>

fun update_failure :: "'w Env \<Rightarrow> event \<Rightarrow> error option" where
  "update_failure env (EvUpdateClient c m (Inl err)) = Some err"
| "update_failure env (EvUpdateClient c m (Inr res)) =
     (case ParseUpdateClientCommitment env (elc_MsgUpdateClientResponse.Commitment res) of
        Inl err \<Rightarrow> Some err
      | Inr _ \<Rightarrow> None)"
| "update_failure env ev = None"

text \<open>
  The destination-chain client state and consensus state in the words of the
  specification: zero height, the configured enclave measurement, a key expiration of
  seven days (604800 seconds), no keys and no attestation times, the configured lists of
  allowed quote statuses and advisory identifiers; and an empty consensus state.
\<close>

definition spec_ClientState :: "'w Env \<Rightarrow> ProverConfig \<Rightarrow> lcp_ClientState" where
  "spec_ClientState env cfg =
     \<lparr>LatestHeight = \<lparr>RevisionNumber = 0, RevisionHeight = 0\<rparr>,
      Mrenclave = GetMrenclave env cfg,
      KeyExpiration = 604800,
      Keys = [],
      AttestationTimes = [],
      AllowedQuoteStatuses = ProverConfig.AllowedQuoteStatuses cfg,
      AllowedAdvisoryIds = ProverConfig.AllowedAdvisoryIds cfg\<rparr>"

definition spec_ConsensusState :: lcp_ConsensusState where
  "spec_ConsensusState = \<lparr>StateId = [], Timestamp = 0\<rparr>"

section \<open>A sample deployment\<close>

text \<open>
  A concrete origin prover, remote service and session on which the theorems below are
  instantiated. The state of the outside world is the number of headers the remote
  service has applied; it answers the first update with the commitment \<open>0xAA\<close>, the
  second with \<open>0xBB\<close>, the third with an empty commitment and rejects every later one. The
  origin prover answers a request for the headers up to \<open>OriginHeader bs\<close> with one header
  per byte of \<open>bs\<close>, and its client-state and packet queries at revision height 0 with an
  empty proof.
\<close>

definition sample_any :: Any where
  "sample_any = \<lparr>TypeUrl = ''/origin.State'', Value = [1, 2, 3]\<rparr>"

definition sample_signed :: "8 word \<Rightarrow> ibc_MsgVerifyResponse" where
  "sample_signed h =
     \<lparr>ibc_MsgVerifyResponse.Commitment = [h, 0x0C],
      ibc_MsgVerifyResponse.Signer = [0x51],
      ibc_MsgVerifyResponse.Signature = [0x52, 0x53]\<rparr>"

definition sample_proof :: "Height \<Rightarrow> bytes" where
  "sample_proof h = (if RevisionHeight h = 0 then [] else [0x70, 0x72])"

definition sample_env :: "nat Env" where
  "sample_env =
     \<lparr>grpc_Dial = (\<lambda>x a. (if a = ''lcp:50051'' then Inr (ClientConn 1)
                           else Inl (Err ''unreachable''), x)),
      NewLCPServiceClient = (\<lambda>conn cdc. case conn of ClientConn n \<Rightarrow> LCPServiceClient n),
      GetMrenclave = (\<lambda>cfg. [0xDE, 0xAD]),
      AccAddress_String = (\<lambda>bs. ''cosmos1relayer''),
      PackClientState = (\<lambda>cs. Inr \<lparr>TypeUrl = ''/lcp.ClientState'', Value = Mrenclave cs\<rparr>),
      PackConsensusState =
        (\<lambda>cs. Inr \<lparr>TypeUrl = ''/lcp.ConsensusState'', Value = StateId cs\<rparr>),
      PackHeader =
        (\<lambda>h. case h of
                OriginHeader bs \<Rightarrow> Inr \<lparr>TypeUrl = ''/origin.Header'', Value = bs\<rparr>
              | LcpHeader u \<Rightarrow> Inl (Err ''not an origin header'')),
      ParseUpdateClientCommitment =
        (\<lambda>bs. if bs = [] then Inl (Err ''malformed commitment'')
              else Inr (UpdateClientCommitment bs)),
      ParseStateCommitment =
        (\<lambda>bs. case bs of
                 [] \<Rightarrow> Inl (Err ''malformed commitment'')
               | b # _ \<Rightarrow> Inr \<lparr>Height = \<lparr>RevisionNumber = 0, RevisionHeight = ucast b\<rparr>\<rparr>),
      ToRLPBytes =
        (\<lambda>p. StateCommitmentProof.Commitment p @ StateCommitmentProof.Signer p
               @ StateCommitmentProof.Signature p),
      CreateClient =
        (\<lambda>c x m. (Inr \<lparr>elc_MsgCreateClientResponse.ClientId = ''lcp-client-0''\<rparr>, x)),
      UpdateClient =
        (\<lambda>c x m.
           (if x = 0 then
              Inr \<lparr>elc_MsgUpdateClientResponse.Commitment = [0xAA],
                   elc_MsgUpdateClientResponse.Signer = [0x51],
                   elc_MsgUpdateClientResponse.Signature = [0x01]\<rparr>
            else if x = 1 then
              Inr \<lparr>elc_MsgUpdateClientResponse.Commitment = [0xBB],
                   elc_MsgUpdateClientResponse.Signer = [0x51],
                   elc_MsgUpdateClientResponse.Signature = [0x02]\<rparr>
            else if x = 2 then
              Inr \<lparr>elc_MsgUpdateClientResponse.Commitment = [],
                   elc_MsgUpdateClientResponse.Signer = [0x51],
                   elc_MsgUpdateClientResponse.Signature = [0x03]\<rparr>
            else Inl (Err ''update rejected''),
            Suc x)),
      VerifyClient = (\<lambda>c x m. (Inr (sample_signed 0x09), x)),
      VerifyClientConsensus = (\<lambda>c x m. (Inr (sample_signed 0x09), x)),
      VerifyConnection = (\<lambda>c x m. (Inr (sample_signed 0x09), x)),
      VerifyChannel = (\<lambda>c x m. (Inr (sample_signed 0x09), x)),
      VerifyPacket = (\<lambda>c x m. (Inr (sample_signed 0x09), x)),
      VerifyPacketAcknowledgement = (\<lambda>c x m. (Inr (sample_signed 0x09), x))\<rparr>"

definition sample_origin :: OriginProver where
  "sample_origin =
     \<lparr>OriginProver.CreateMsgCreateClient =
        (\<lambda>cid h s. Inr \<lparr>clienttypes_MsgCreateClient.ClientState = sample_any,
                        clienttypes_MsgCreateClient.ConsensusState = sample_any,
                        clienttypes_MsgCreateClient.Signer = ''cosmos1relayer''\<rparr>),
      OriginProver.SetupHeadersForUpdate =
        (\<lambda>q h. case h of
                  OriginHeader bs \<Rightarrow> Inr (map (\<lambda>b. OriginHeader [b]) bs)
                | LcpHeader u \<Rightarrow> Inl (Err ''not an origin header'')),
      OriginProver.QueryClientConsensusStateWithProof =
        (\<lambda>ctx h. Inr \<lparr>QueryConsensusStateResponse.ConsensusState = sample_any,
                       QueryConsensusStateResponse.Proof = sample_proof (ctxHeight ctx),
                       QueryConsensusStateResponse.ProofHeight = ctxHeight ctx\<rparr>),
      OriginProver.QueryClientStateWithProof =
        (\<lambda>ctx. Inr \<lparr>QueryClientStateResponse.ClientState = sample_any,
                     QueryClientStateResponse.Proof = sample_proof (ctxHeight ctx),
                     QueryClientStateResponse.ProofHeight = ctxHeight ctx\<rparr>),
      OriginProver.QueryConnectionWithProof =
        (\<lambda>ctx. Inr \<lparr>Connection = Some (ConnectionEndValue [0xC0]),
                     QueryConnectionResponse.Proof = sample_proof (ctxHeight ctx),
                     QueryConnectionResponse.ProofHeight = ctxHeight ctx\<rparr>),
      OriginProver.QueryChannelWithProof =
        (\<lambda>ctx. Inr \<lparr>QueryChannelResponse.Channel = Some (ChannelValue [0xC1]),
                     QueryChannelResponse.Proof = sample_proof (ctxHeight ctx),
                     QueryChannelResponse.ProofHeight = ctxHeight ctx\<rparr>),
      OriginProver.QueryPacketCommitmentWithProof =
        (\<lambda>ctx seq. Inr \<lparr>QueryPacketCommitmentResponse.Commitment = [0xC2],
                         QueryPacketCommitmentResponse.Proof = sample_proof (ctxHeight ctx),
                         QueryPacketCommitmentResponse.ProofHeight = ctxHeight ctx\<rparr>),
      OriginProver.QueryPacketAcknowledgementCommitmentWithProof =
        (\<lambda>ctx seq. Inr \<lparr>Acknowledgement = [0xC3],
                         QueryPacketAcknowledgementResponse.Proof = sample_proof (ctxHeight ctx),
                         QueryPacketAcknowledgementResponse.ProofHeight = ctxHeight ctx\<rparr>)\<rparr>"

definition sample_config :: "string \<Rightarrow> string \<Rightarrow> ProverConfig" where
  "sample_config address cid =
     \<lparr>LcpServiceAddress = address,
      ElcClientId = cid,
      AllowedQuoteStatuses = [''SW_HARDENING_NEEDED''],
      AllowedAdvisoryIds = [''INTEL-SA-00219'']\<rparr>"

definition sample_path :: PathEnd where
  "sample_path =
     \<lparr>ClientID = ''07-tendermint-0'', ConnectionID = ''connection-0'',
      PortID = ''transfer'', ChannelID = ''channel-0''\<rparr>"

text \<open>The session after \<open>NewProver\<close>, \<open>Init\<close>, \<open>SetRelayInfo\<close> and \<open>SetupForRelay\<close>.\<close>

definition sample_prover :: "string \<Rightarrow> string \<Rightarrow> Prover" where
  "sample_prover address cid =
     \<lparr>config = sample_config address cid,
      originChain = Chain ''origin-0'',
      originProver = sample_origin,
      codec = Some (ProtoCodec 0),
      path = Some sample_path,
      lcpServiceClient = Some (LCPServiceClient 1)\<rparr>"

definition sample_world :: "nat World" where
  "sample_world = \<lparr>ext = 0, trace = []\<rparr>"

definition height_at :: "64 word \<Rightarrow> Height" where
  "height_at n = \<lparr>RevisionNumber = 0, RevisionHeight = n\<rparr>"

section \<open>The query operations leave the session alone\<close>

lemma QueryClientConsensusStateWithProof_session:
  "fst (snd (QueryClientConsensusStateWithProof env pr ctx h w)) = pr"
  by (simp add: QueryClientConsensusStateWithProof_def
      split: sum.splits option.splits prod.splits exported_Height.splits)

lemma QueryClientStateWithProof_session:
  "fst (snd (QueryClientStateWithProof env pr ctx w)) = pr"
  by (simp add: QueryClientStateWithProof_def split: sum.splits option.splits prod.splits)

lemma QueryConnectionWithProof_session:
  "fst (snd (QueryConnectionWithProof env pr ctx w)) = pr"
  by (simp add: QueryConnectionWithProof_def split: sum.splits option.splits prod.splits)

lemma QueryChannelWithProof_session:
  "fst (snd (QueryChannelWithProof env pr ctx w)) = pr"
  by (simp add: QueryChannelWithProof_def split: sum.splits option.splits prod.splits)

lemma QueryPacketCommitmentWithProof_session:
  "fst (snd (QueryPacketCommitmentWithProof env pr ctx seq w)) = pr"
  by (simp add: QueryPacketCommitmentWithProof_def
      split: sum.splits option.splits prod.splits)

lemma QueryPacketAcknowledgementCommitmentWithProof_session:
  "fst (snd (QueryPacketAcknowledgementCommitmentWithProof env pr ctx seq w)) = pr"
  by (simp add: QueryPacketAcknowledgementCommitmentWithProof_def
      split: sum.splits option.splits prod.splits)

text \<open>
  Claim C10. None of the six query-with-proof operations changes a field of the session:
  whatever the outcome (a result, an error or a panic), the \<open>Prover\<close> after the call is the
  \<open>Prover\<close> before it, field by field.
\<close>

theorem query_operations_preserve_session:
  "fst (snd (QueryClientStateWithProof env pr ctx w)) = pr
   \<and> fst (snd (QueryClientConsensusStateWithProof env pr ctx h w)) = pr
   \<and> fst (snd (QueryConnectionWithProof env pr ctx w)) = pr
   \<and> fst (snd (QueryChannelWithProof env pr ctx w)) = pr
   \<and> fst (snd (QueryPacketCommitmentWithProof env pr ctx seq w)) = pr
   \<and> fst (snd (QueryPacketAcknowledgementCommitmentWithProof env pr ctx seq w)) = pr"
  by (simp add: QueryClientStateWithProof_session QueryClientConsensusStateWithProof_session
      QueryConnectionWithProof_session QueryChannelWithProof_session
      QueryPacketCommitmentWithProof_session
      QueryPacketAcknowledgementCommitmentWithProof_session)

end
